theory Spec2Isabelle
  imports Main "HOL-Library.Word"
begin

unbundle bit_operations_syntax

section \<open>JavaScript values\<close>

text \<open>
  The client handles untyped JavaScript values: parameter objects, transport
  configurations, responses and errors. An object is its list of own enumerable
  properties in enumeration order (insertion order for the property names used here).
  Numbers are the integers (decimal rendering and exact arithmetic hold for integers of
  magnitude below \<open>2 ^ 53\<close>; fractional numbers and arrays are outside the model).
  \<open>JFunc\<close> is a function value, known by a label only.
\<close>

datatype jsval =
    JUndefined
  | JNull
  | JBool bool
  | JNum int
  | JStr string
  | JFunc string
  | JObj "(string \<times> jsval) list"

text \<open>What a promise is rejected with: a value given to \<open>Promise.reject\<close> (or
  passed on from the transport), or a \<open>TypeError\<close> thrown by the runtime inside
  the function; the string names the operation that failed (the message text varies
  between engines).\<close>

datatype error =
    Reason jsval
  | TypeError string

text \<open>\<open>ToBoolean\<close>: what \<open>!v\<close>, \<open>v ? a : b\<close> and \<open>v || w\<close> test.\<close>

fun truthy :: "jsval \<Rightarrow> bool" where
  "truthy JUndefined = False"
| "truthy JNull = False"
| "truthy (JBool b) = b"
| "truthy (JNum n) = (n \<noteq> 0)"
| "truthy (JStr s) = (s \<noteq> [])"
| "truthy (JFunc f) = True"
| "truthy (JObj ps) = True"

text \<open>\<open>a || b\<close> where both operands are already evaluated.\<close>

definition js_or :: "jsval \<Rightarrow> jsval \<Rightarrow> jsval" where
  "js_or a b = (if truthy a then a else b)"

text \<open>The property \<open>k\<close> of an object's property list (\<open>undefined\<close> when absent).\<close>

definition obj_get :: "(string \<times> jsval) list \<Rightarrow> string \<Rightarrow> jsval" where
  "obj_get ps k = (case map_of ps k of None \<Rightarrow> JUndefined | Some v \<Rightarrow> v)"

text \<open>Writing property \<open>k\<close> in an object under construction: an existing property keeps
  its place and takes the new value, a new one goes to the end.\<close>

fun obj_set :: "(string \<times> jsval) list \<Rightarrow> string \<Rightarrow> jsval \<Rightarrow> (string \<times> jsval) list" where
  "obj_set [] k v = [(k, v)]"
| "obj_set ((k', v') # ps) k v =
     (if k' = k then (k, v) # ps else (k', v') # obj_set ps k v)"

text \<open>Decimal rendering of a natural number and of an integer (\<open>String(n)\<close>).\<close>

fun digits_of :: "nat \<Rightarrow> string" where
  "digits_of n =
     (if n < 10 then [char_of (48 + n)]
      else digits_of (n div 10) @ [char_of (48 + n mod 10)])"

definition number_to_string :: "int \<Rightarrow> string" where
  "number_to_string n =
     (if n < 0 then CHR ''-'' # digits_of (nat (- n)) else digits_of (nat n))"

text \<open>The own enumerable properties a spread \<open>{...v}\<close> copies: those of an object,
  the indexed characters of a string, none for the other values (\<open>undefined\<close> and
  \<open>null\<close> included).\<close>

fun own_props :: "jsval \<Rightarrow> (string \<times> jsval) list" where
  "own_props (JObj ps) = ps"
| "own_props (JStr s) = map (\<lambda>i. (digits_of i, JStr [s ! i])) [0..<length s]"
| "own_props v = []"

text \<open>\<open>Object.keys(v)\<close>.\<close>

definition keys :: "jsval \<Rightarrow> string list" where
  "keys v = map fst (own_props v)"

text \<open>\<open>{...acc, ...v}\<close>: the properties of \<open>v\<close> written onto \<open>acc\<close> in order.\<close>

definition spread :: "(string \<times> jsval) list \<Rightarrow> jsval \<Rightarrow> (string \<times> jsval) list" where
  "spread acc v = fold (\<lambda>(k, x) ps. obj_set ps k x) (own_props v) acc"

text \<open>Reading \<open>v.k\<close>. On \<open>undefined\<close> and \<open>null\<close> the runtime throws a
  \<open>TypeError\<close>; on an object the property is looked up; the other values have none of
  the properties this program reads from untyped values (\<open>response\<close>, \<open>data\<close>,
  \<open>error\<close>, \<open>headers\<close>).\<close>

fun member :: "jsval \<Rightarrow> string \<Rightarrow> error + jsval" where
  "member JUndefined k = Inl (TypeError (''read '' @ k @ '' of undefined''))"
| "member JNull k = Inl (TypeError (''read '' @ k @ '' of null''))"
| "member (JObj ps) k = Inr (obj_get ps k)"
| "member v k = Inr JUndefined"

section \<open>The qs library: stringify\<close>

text \<open>
  \<open>qs.stringify\<close> with its default options, as the client calls it. Its encoder keeps
  the unreserved characters (letters, digits, \<open>- . _ ~\<close>) and writes every other byte
  as \<open>%XX\<close> in upper-case hexadecimal; strings are their UTF-8 bytes.
\<close>

definition hex_upper :: "nat \<Rightarrow> char" where
  "hex_upper n = ''0123456789ABCDEF'' ! (n mod 16)"

definition unreserved :: "char \<Rightarrow> bool" where
  "unreserved c =
     (let n = (of_char c :: nat) in
      n = 0x2D \<or> n = 0x2E \<or> n = 0x5F \<or> n = 0x7E \<or>
      (0x30 \<le> n \<and> n \<le> 0x39) \<or> (0x41 \<le> n \<and> n \<le> 0x5A) \<or> (0x61 \<le> n \<and> n \<le> 0x7A))"

definition encode_char :: "char \<Rightarrow> string" where
  "encode_char c =
     (if unreserved c then [c]
      else [CHR ''%'', hex_upper ((of_char c :: nat) div 16), hex_upper (of_char c)])"

definition encode :: "string \<Rightarrow> string" where
  "encode s = concat (map encode_char s)"

text \<open>The \<open>key=value\<close> pairs of one value under the key prefix \<open>prefix\<close>:
  \<open>null\<close> is written as the empty string, a string, number or boolean as itself,
  \<open>undefined\<close> is skipped, and an object contributes the pairs of its properties under
  \<open>prefix[key]\<close> (a function has no enumerable properties).\<close>

fun stringify_value :: "jsval \<Rightarrow> string \<Rightarrow> string list"
  and stringify_props :: "(string \<times> jsval) list \<Rightarrow> string \<Rightarrow> string list" where
  "stringify_value JNull prefix = [encode prefix @ ''='']"
| "stringify_value (JStr s) prefix = [encode prefix @ ''='' @ encode s]"
| "stringify_value (JNum n) prefix = [encode prefix @ ''='' @ encode (number_to_string n)]"
| "stringify_value (JBool b) prefix =
     [encode prefix @ ''='' @ encode (if b then ''true'' else ''false'')]"
| "stringify_value JUndefined prefix = []"
| "stringify_value (JFunc f) prefix = []"
| "stringify_value (JObj ps) prefix = stringify_props ps prefix"
| "stringify_props [] prefix = []"
| "stringify_props ((k, v) # ps) prefix =
     stringify_value v (prefix @ ''['' @ k @ '']'') @ stringify_props ps prefix"

fun join :: "string \<Rightarrow> string list \<Rightarrow> string" where
  "join sep [] = []"
| "join sep [x] = x"
| "join sep (x # y # ys) = x @ sep @ join sep (y # ys)"

text \<open>\<open>qs.stringify(obj)\<close>: the empty string unless \<open>obj\<close> is an object; otherwise the
  pairs of every property, in order, joined by \<open>&\<close>.\<close>

fun stringify :: "jsval \<Rightarrow> string" where
  "stringify (JObj ps) = join ''&'' (concat (map (\<lambda>(k, v). stringify_value v k) ps))"
| "stringify v = []"

section \<open>The crypto library: HMAC with SHA-512, hexadecimal digest\<close>

text \<open>
  The signature is computed by the runtime's \<open>crypto\<close> module, which is not part of
  the repository: the HMAC construction over the hash SHA-512, on the UTF-8 bytes of
  the key and of the message, written out in lower-case hexadecimal. The hash works on
  64-bit words with wrap-around addition.
\<close>

type_synonym byte = "8 word"
type_synonym w64 = "64 word"

definition rotr :: "nat \<Rightarrow> w64 \<Rightarrow> w64" where
  "rotr n x = (drop_bit n x) OR (push_bit (64 - n) x)"

definition Ch :: "w64 \<Rightarrow> w64 \<Rightarrow> w64 \<Rightarrow> w64" where
  "Ch x y z = (x AND y) XOR (NOT x AND z)"

definition Maj :: "w64 \<Rightarrow> w64 \<Rightarrow> w64 \<Rightarrow> w64" where
  "Maj x y z = (x AND y) XOR (x AND z) XOR (y AND z)"

definition Sigma0 :: "w64 \<Rightarrow> w64" where
  "Sigma0 x = rotr 28 x XOR rotr 34 x XOR rotr 39 x"

definition Sigma1 :: "w64 \<Rightarrow> w64" where
  "Sigma1 x = rotr 14 x XOR rotr 18 x XOR rotr 41 x"

definition sigma0 :: "w64 \<Rightarrow> w64" where
  "sigma0 x = rotr 1 x XOR rotr 8 x XOR drop_bit 7 x"

definition sigma1 :: "w64 \<Rightarrow> w64" where
  "sigma1 x = rotr 19 x XOR rotr 61 x XOR drop_bit 6 x"

text \<open>The constants of SHA-512 are defined from the primes: round constant \<open>i\<close> is
  the first 64 bits of the fractional part of the cube root of the \<open>i\<close>-th prime,
  and the initial hash value takes the square roots of the first eight primes. With
  \<open>root_bits k n r b\<close> the largest \<open>m\<close> below \<open>r + 2 ^ b\<close> (from \<open>r\<close>
  upwards, bit by bit) such that \<open>m ^ k \<le> n\<close>, the fractional bits of the root of
  \<open>p\<close> are the low 64 bits of the integer root of \<open>p * 2 ^ (64 * k)\<close>.\<close>

fun root_bits :: "nat \<Rightarrow> nat \<Rightarrow> nat \<Rightarrow> nat \<Rightarrow> nat" where
  "root_bits k n r 0 = r"
| "root_bits k n r (Suc b) =
     root_bits k n (if (r + 2 ^ b) ^ k \<le> n then r + 2 ^ b else r) b"

definition frac_root64 :: "nat \<Rightarrow> nat \<Rightarrow> w64" where
  "frac_root64 k p = of_nat (root_bits k (p * 2 ^ (64 * k)) 0 72)"

definition first_primes :: "nat list" where
  "first_primes =
     [2, 3, 5, 7, 11, 13, 17, 19, 23, 29, 31, 37, 41, 43, 47, 53, 59, 61, 67, 71,
      73, 79, 83, 89, 97, 101, 103, 107, 109, 113, 127, 131, 137, 139, 149, 151, 157, 163,
      167, 173, 179, 181, 191, 193, 197, 199, 211, 223, 227, 229, 233, 239, 241, 251, 257,
      263, 269, 271, 277, 281, 283, 293, 307, 311, 313, 317, 331, 337, 347, 349, 353, 359,
      367, 373, 379, 383, 389, 397, 401, 409]"

definition sha512_K :: "w64 list" where
  "sha512_K = map (frac_root64 3) first_primes"

type_synonym sha512_state = "w64 \<times> w64 \<times> w64 \<times> w64 \<times> w64 \<times> w64 \<times> w64 \<times> w64"

definition sha512_H0 :: sha512_state where
  "sha512_H0 =
     (frac_root64 2 2, frac_root64 2 3, frac_root64 2 5, frac_root64 2 7,
      frac_root64 2 11, frac_root64 2 13, frac_root64 2 17, frac_root64 2 19)"

text \<open>Big-endian bytes to a word, and a word to its eight big-endian bytes.\<close>

definition word_of_bytes :: "byte list \<Rightarrow> w64" where
  "word_of_bytes bs = foldl (\<lambda>w b. push_bit 8 w OR ucast b) 0 bs"

definition bytes_of_word :: "w64 \<Rightarrow> byte list" where
  "bytes_of_word w = map (\<lambda>i. ucast (drop_bit (8 * (7 - i)) w)) [0..<8]"

text \<open>Padding: the byte \<open>0x80\<close>, zero bytes up to 112 modulo 128, and the length of the
  message in bits as a 128-bit big-endian number.\<close>

definition sha512_pad :: "byte list \<Rightarrow> byte list" where
  "sha512_pad m =
     m @ [0x80] @ replicate ((240 - (length m + 1) mod 128) mod 128) 0
       @ bytes_of_word (of_nat ((8 * length m) div 2 ^ 64)) @ bytes_of_word (of_nat (8 * length m))"

text \<open>The message schedule: sixteen words of the block, extended to eighty.\<close>

primrec schedule :: "w64 list \<Rightarrow> nat \<Rightarrow> w64 list" where
  "schedule ws 0 = ws"
| "schedule ws (Suc n) =
     (let t = length ws in
      schedule (ws @ [sigma1 (ws ! (t - 2)) + ws ! (t - 7) + sigma0 (ws ! (t - 15)) + ws ! (t - 16)]) n)"

definition block_words :: "byte list \<Rightarrow> w64 list" where
  "block_words blk = map (\<lambda>j. word_of_bytes (take 8 (drop (8 * j) blk))) [0..<16]"

fun sha512_round :: "w64 \<times> w64 \<Rightarrow> sha512_state \<Rightarrow> sha512_state" where
  "sha512_round (k, w) (a, b, c, d, e, f, g, h) =
     (let T1 = h + Sigma1 e + Ch e f g + k + w;
          T2 = Sigma0 a + Maj a b c
      in (T1 + T2, a, b, c, d + T1, e, f, g))"

fun sha512_add :: "sha512_state \<Rightarrow> sha512_state \<Rightarrow> sha512_state" where
  "sha512_add (a, b, c, d, e, f, g, h) (a', b', c', d', e', f', g', h') =
     (a + a', b + b', c + c', d + d', e + e', f + f', g + g', h + h')"

definition sha512_compress :: "sha512_state \<Rightarrow> byte list \<Rightarrow> sha512_state" where
  "sha512_compress H blk =
     sha512_add H (fold sha512_round (zip sha512_K (schedule (block_words blk) 64)) H)"

primrec sha512_blocks :: "sha512_state \<Rightarrow> byte list \<Rightarrow> nat \<Rightarrow> sha512_state" where
  "sha512_blocks H bs 0 = H"
| "sha512_blocks H bs (Suc n) = sha512_blocks (sha512_compress H (take 128 bs)) (drop 128 bs) n"

fun sha512_digest :: "sha512_state \<Rightarrow> byte list" where
  "sha512_digest (a, b, c, d, e, f, g, h) = concat (map bytes_of_word [a, b, c, d, e, f, g, h])"

definition sha512 :: "byte list \<Rightarrow> byte list" where
  "sha512 m =
     (let p = sha512_pad m in sha512_digest (sha512_blocks sha512_H0 p (length p div 128)))"

text \<open>HMAC (block size 128 bytes): a key longer than a block is hashed first, then
  padded with zero bytes.\<close>

definition hmac_sha512 :: "byte list \<Rightarrow> byte list \<Rightarrow> byte list" where
  "hmac_sha512 key m =
     (let k0 = (if length key > 128 then sha512 key else key);
          k = k0 @ replicate (128 - length k0) 0
      in sha512 (map (\<lambda>b. b XOR 0x5c) k @ sha512 (map (\<lambda>b. b XOR 0x36) k @ m)))"

definition hex_lower :: "nat \<Rightarrow> char" where
  "hex_lower n = ''0123456789abcdef'' ! (n mod 16)"

definition hex_of_bytes :: "byte list \<Rightarrow> string" where
  "hex_of_bytes bs = concat (map (\<lambda>b. [hex_lower (unat b div 16), hex_lower (unat b)]) bs)"

definition bytes_of_string :: "string \<Rightarrow> byte list" where
  "bytes_of_string s = map (\<lambda>c. of_nat (of_char c)) s"

text \<open>\<open>crypto.createHmac('sha512', key).update(message).digest('hex')\<close>.\<close>

definition createHmac_sha512_hex :: "string \<Rightarrow> string \<Rightarrow> string" where
  "createHmac_sha512_hex key message =
     hex_of_bytes (hmac_sha512 (bytes_of_string key) (bytes_of_string message))"

section \<open>The client\<close>

subsection \<open>Configuration constants\<close>

definition defaultConfig :: "(string \<times> jsval) list" where
  "defaultConfig = [(''rootUrl'', JStr ''https://poloniex.com''), (''timeout'', JNum 5000)]"

text \<open>The default agent configuration of the client with request overrides (the file
  whose raw object is \<open>rawAgent\<close>).\<close>

definition defaultAgentConfig :: "(string \<times> jsval) list" where
  "defaultAgentConfig =
     [(''baseURL'', obj_get defaultConfig ''rootUrl''),
      (''headers'', JObj [(''User-Agent'',
          JStr ''Poloniex API Client (poloniex-exchange-api node package)'')]),
      (''method'', JStr ''GET''),
      (''timeout'', obj_get defaultConfig ''timeout''),
      (''validateStatus'', JFunc ''() => true'')]"

definition publicAgentConfig :: "(string \<times> jsval) list" where
  "publicAgentConfig = spread [] (JObj defaultAgentConfig)"

definition privateAgentConfig :: "(string \<times> jsval) list" where
  "privateAgentConfig = obj_set (spread [] (JObj defaultAgentConfig)) ''method'' (JStr ''POST'')"

text \<open>The same constants in \<open>index.ts\<close> (whose raw object is \<open>rawClient\<close>); the
  oldest file, with the flat client, has them word for word.\<close>

definition defaultAgentConfig_index :: "(string \<times> jsval) list" where
  "defaultAgentConfig_index =
     [(''baseURL'', obj_get defaultConfig ''rootUrl''),
      (''headers'', JObj [(''User-Agent'',
          JStr ''Poloniex API Client (poloniex-api node package)'')]),
      (''method'', JStr ''GET''),
      (''timeout'', obj_get defaultConfig ''timeout'')]"

definition publicAgentConfig_index :: "(string \<times> jsval) list" where
  "publicAgentConfig_index = spread [] (JObj defaultAgentConfig_index)"

definition privateAgentConfig_index :: "(string \<times> jsval) list" where
  "privateAgentConfig_index =
     obj_set (spread [] (JObj defaultAgentConfig_index)) ''method'' (JStr ''POST'')"

subsection \<open>Signing and the nonce\<close>

definition signMessage :: "jsval \<Rightarrow> string \<Rightarrow> string" where
  "signMessage postBody privateKey =
     (let message = stringify postBody in createHmac_sha512_hex privateKey message)"

text \<open>\<open>generateNonce\<close> reads the wall clock: \<open>now\<close> is what \<open>Date.now()\<close>
  returns at the call, in milliseconds.\<close>

definition generateNonce :: "int \<Rightarrow> int" where
  "generateNonce now = now * 1000"

text \<open>Every private endpoint method calls \<open>generateNonce\<close> once, right before it
  builds its parameters. The nonces of the successive private requests of a session,
  when \<open>Date.now()\<close> returns the values of \<open>clock\<close> at the successive calls:\<close>

definition session_nonces :: "int list \<Rightarrow> int list" where
  "session_nonces clock = map generateNonce clock"

subsection \<open>The raw agent\<close>

record IApiAuth =
  publicKey :: string
  privateKey :: string

text \<open>The state of the raw object is its \<open>auth\<close> property: the credentials, or
  \<open>undefined\<close>. (\<open>IRawClient\<close> of \<open>index.ts\<close> has the same one field.)\<close>

record IRawAgent =
  auth :: "IApiAuth option"

type_synonym IRawClient = IRawAgent

text \<open>The transport \<open>axios(config)\<close>: \<open>Inl err\<close> when its promise rejects with
  \<open>err\<close>, \<open>Inr response\<close> when it resolves.\<close>

type_synonym transport = "jsval \<Rightarrow> jsval + jsval"

text \<open>What a method call leaves behind: the receiver after the call, the configurations
  handed to the transport during it (in order), and how the call settled (\<open>Inl\<close>: it
  threw or its promise was rejected; \<open>Inr\<close>: the value returned or resolved).\<close>

record 'c call =
  receiver :: 'c
  sent :: "jsval list"
  outcome :: "error + jsval"

definition getRawAgent :: "IApiAuth option \<Rightarrow> IRawAgent" where
  "getRawAgent a = \<lparr>auth = a\<rparr>"

text \<open>The \<open>auth\<close> property as a JavaScript value: \<open>undefined\<close>, or the
  credentials object (its two properties, in the order of the interface).\<close>

definition auth_value :: "IApiAuth option \<Rightarrow> jsval" where
  "auth_value a =
     (case a of
        None \<Rightarrow> JUndefined
      | Some c \<Rightarrow> JObj [(''publicKey'', JStr (publicKey c)), (''privateKey'', JStr (privateKey c))])"

text \<open>\<open>isUpgraded(): boolean { return this.auth; }\<close>: the method hands back the
  \<open>auth\<close> property itself, whatever the declared type says.\<close>

definition isUpgraded :: "IRawAgent \<Rightarrow> jsval" where
  "isUpgraded this = auth_value (auth this)"

definition upgrade :: "IRawAgent \<Rightarrow> IApiAuth \<Rightarrow> IRawAgent" where
  "upgrade this newAuth = this\<lparr>auth := Some newAuth\<rparr>"

definition send :: "transport \<Rightarrow> jsval \<Rightarrow> error + jsval" where
  "send axios agentConfig =
     (case axios agentConfig of Inl err \<Rightarrow> Inl (Reason err) | Inr response \<Rightarrow> Inr response)"

definition getPublicEndpoint :: "transport \<Rightarrow> IRawAgent \<Rightarrow> jsval \<Rightarrow> jsval \<Rightarrow> IRawAgent call" where
  "getPublicEndpoint axios this queryParams configOverride =
     (let config = spread (spread [] (JObj defaultConfig)) configOverride;
          uri = ''/public?'' @ stringify queryParams;
          agentConfig =
            JObj (spread (obj_set (spread [] (JObj publicAgentConfig)) ''url'' (JStr uri))
                    (JObj config))
      in \<lparr>receiver = this, sent = [agentConfig], outcome = send axios agentConfig\<rparr>)"

definition postToPrivateEndpoint :: "transport \<Rightarrow> IRawAgent \<Rightarrow> jsval \<Rightarrow> jsval \<Rightarrow> IRawAgent call" where
  "postToPrivateEndpoint axios this data configOverride =
     (if \<not> truthy (isUpgraded this)
      then \<lparr>receiver = this, sent = [], outcome = Inl (Reason (JStr ''not authenticated''))\<rparr>
      else
        (case auth this of
           None \<Rightarrow>
             \<lparr>receiver = this, sent = [], outcome = Inl (TypeError ''read publicKey of undefined'')\<rparr>
         | Some a \<Rightarrow>
            (let config = spread (spread [] (JObj defaultConfig)) configOverride;
                 uri = ''/tradingApi'';
                 headersOverride =
                   (if truthy (JObj config) then obj_get config ''headers'' else JNull);
                 headers =
                   spread
                     (obj_set
                        (obj_set (spread [] (obj_get privateAgentConfig ''headers''))
                           ''Key'' (JStr (publicKey a)))
                        ''Sign'' (JStr (signMessage data (privateKey a))))
                     headersOverride;
                 agentConfig =
                   JObj (spread
                           (obj_set
                              (obj_set
                                 (obj_set (spread [] (JObj privateAgentConfig))
                                    ''headers'' (JObj headers))
                                 ''url'' (JStr uri))
                              ''data'' (JStr (stringify data)))
                           (JObj config))
             in \<lparr>receiver = this, sent = [agentConfig], outcome = send axios agentConfig\<rparr>)))"

subsection \<open>The raw client of \<open>index.ts\<close>\<close>

definition getRawClient :: "IApiAuth option \<Rightarrow> IRawClient" where
  "getRawClient a = \<lparr>auth = a\<rparr>"

definition getPublicEndpoint_index :: "transport \<Rightarrow> IRawClient \<Rightarrow> jsval \<Rightarrow> IRawClient call" where
  "getPublicEndpoint_index axios this queryParams =
     (let uri = ''/public?'' @ stringify queryParams;
          agentConfig = JObj (obj_set (spread [] (JObj publicAgentConfig_index)) ''url'' (JStr uri))
      in \<lparr>receiver = this, sent = [agentConfig], outcome = send axios agentConfig\<rparr>)"

text \<open>\<open>err.response.data.error || err.response.data || err.response || err\<close>: the
  three property reads of the first operand come first, and each throws on
  \<open>undefined\<close> and \<open>null\<close>.\<close>

definition rejectionReason :: "jsval \<Rightarrow> error" where
  "rejectionReason err =
     (case member err ''response'' of
        Inl thrown \<Rightarrow> thrown
      | Inr response \<Rightarrow>
         (case member response ''data'' of
            Inl thrown \<Rightarrow> thrown
          | Inr data \<Rightarrow>
             (case member data ''error'' of
                Inl thrown \<Rightarrow> thrown
              | Inr error \<Rightarrow> Reason (js_or (js_or (js_or error data) response) err))))"

definition postToPrivateEndpoint_index :: "transport \<Rightarrow> IRawClient \<Rightarrow> jsval \<Rightarrow> IRawClient call" where
  "postToPrivateEndpoint_index axios this data =
     (if \<not> truthy (isUpgraded this)
      then \<lparr>receiver = this, sent = [],
             outcome = Inl (Reason (JStr ''api keys are required to access private endpoints''))\<rparr>
      else
        (case auth this of
           None \<Rightarrow>
             \<lparr>receiver = this, sent = [], outcome = Inl (TypeError ''read publicKey of undefined'')\<rparr>
         | Some a \<Rightarrow>
            (let uri = ''/tradingApi'';
                 headers =
                   obj_set
                     (obj_set (spread [] (obj_get privateAgentConfig_index ''headers''))
                        ''Key'' (JStr (publicKey a)))
                     ''Sign'' (JStr (signMessage data (privateKey a)));
                 agentConfig =
                   JObj (obj_set
                           (obj_set
                              (obj_set (spread [] (JObj privateAgentConfig_index))
                                 ''headers'' (JObj headers))
                              ''url'' (JStr uri))
                           ''data'' (JStr (stringify data)))
             in \<lparr>receiver = this, sent = [agentConfig],
                  outcome =
                    (case axios agentConfig of
                       Inr response \<Rightarrow> Inr response
                     | Inl err \<Rightarrow> Inl (rejectionReason err))\<rparr>)))"

subsection \<open>The client and its endpoint methods\<close>

text \<open>The client owns a raw agent; \<open>requestConfig\<close> is the parameter of
  \<open>getClient\<close> that its methods close over (\<open>null\<close> when the caller leaves it
  out).\<close>

record IPoloniexClient =
  rawAgent :: IRawAgent
  requestConfig :: jsval

definition getClient :: "IApiAuth option \<Rightarrow> jsval \<Rightarrow> IPoloniexClient" where
  "getClient a cfg =
     \<lparr>rawAgent = getRawAgent a, requestConfig = (if cfg = JUndefined then JNull else cfg)\<rparr>"

definition client_isUpgraded :: "IPoloniexClient \<Rightarrow> jsval" where
  "client_isUpgraded this = isUpgraded (rawAgent this)"

definition client_upgrade :: "IPoloniexClient \<Rightarrow> IApiAuth \<Rightarrow> IPoloniexClient call" where
  "client_upgrade this newAuth =
     \<lparr>receiver = this\<lparr>rawAgent := upgrade (rawAgent this) newAuth\<rparr>, sent = [],
      outcome = Inr JUndefined\<rparr>"

text \<open>A call of a raw agent's method made by the client that owns it.\<close>

definition on_rawAgent :: "IPoloniexClient \<Rightarrow> IRawAgent call \<Rightarrow> IPoloniexClient call" where
  "on_rawAgent this r =
     \<lparr>receiver = this\<lparr>rawAgent := receiver r\<rparr>, sent = sent r, outcome = outcome r\<rparr>"

text \<open>\<open>(({ k1, k2 }) => ({ k1, k2 }))(v)\<close>: destructuring throws on \<open>undefined\<close>
  and \<open>null\<close>; otherwise each named property is read (\<open>undefined\<close> when absent).\<close>

definition pick :: "jsval \<Rightarrow> string list \<Rightarrow> error + (string \<times> jsval) list" where
  "pick v ks =
     (if v = JUndefined \<or> v = JNull then Inl (TypeError ''destructure undefined or null'')
      else Inr (map (\<lambda>k. (k, case v of JObj ps \<Rightarrow> obj_get ps k | _ \<Rightarrow> JUndefined)) ks))"

definition returnOrderBook :: "transport \<Rightarrow> IPoloniexClient \<Rightarrow> jsval \<Rightarrow> IPoloniexClient call" where
  "returnOrderBook axios this queryParams =
     (let command = JStr ''returnOrderBook'';
          required = JObj [(''command'', command)];
          optional =
            (if truthy queryParams then pick queryParams [''currencyPair'', ''depth'']
             else Inr [(''currencyPair'', JStr ''all'')])
      in case optional of
           Inl thrown \<Rightarrow> \<lparr>receiver = this, sent = [], outcome = Inl thrown\<rparr>
         | Inr opt \<Rightarrow>
             (let params = JObj (spread (spread [] required) (JObj opt))
              in on_rawAgent this
                   (getPublicEndpoint axios (rawAgent this) params (requestConfig this))))"

text \<open>\<open>now\<close> is the reading of \<open>Date.now()\<close> inside \<open>generateNonce\<close>.\<close>

definition returnBalances :: "transport \<Rightarrow> int \<Rightarrow> IPoloniexClient \<Rightarrow> IPoloniexClient call" where
  "returnBalances axios now this =
     (let command = JStr ''returnBalances'';
          nonce = JNum (generateNonce now);
          params = JObj [(''command'', command), (''nonce'', nonce)]
      in on_rawAgent this
           (postToPrivateEndpoint axios (rawAgent this) params (requestConfig this)))"

subsection \<open>The client of \<open>index.ts\<close>\<close>

record IPoloniexClient_index =
  rawClient :: IRawClient

definition getClient_index :: "IApiAuth option \<Rightarrow> IPoloniexClient_index" where
  "getClient_index a = \<lparr>rawClient = getRawClient a\<rparr>"

definition client_isUpgraded_index :: "IPoloniexClient_index \<Rightarrow> jsval" where
  "client_isUpgraded_index this = isUpgraded (rawClient this)"

text \<open>\<open>upgrade(newAuth) { this.rawClient.update(newAuth); }\<close>: the object that
  \<open>getRawClient\<close> returns has the properties \<open>auth\<close>, \<open>getPublicEndpoint\<close>,
  \<open>isUpgraded\<close>, \<open>postToPrivateEndpoint\<close>, \<open>signMessage\<close> and \<open>upgrade\<close>, and
  none named \<open>update\<close>: \<open>this.rawClient.update\<close> is \<open>undefined\<close>, and calling it
  throws before anything is assigned.\<close>

definition client_upgrade_index :: "IPoloniexClient_index \<Rightarrow> IApiAuth \<Rightarrow> IPoloniexClient_index call" where
  "client_upgrade_index this newAuth =
     \<lparr>receiver = this, sent = [], outcome = Inl (TypeError ''call rawClient.update of undefined'')\<rparr>"

definition on_rawClient :: "IPoloniexClient_index \<Rightarrow> IRawClient call \<Rightarrow> IPoloniexClient_index call" where
  "on_rawClient this r =
     \<lparr>receiver = this\<lparr>rawClient := receiver r\<rparr>, sent = sent r, outcome = outcome r\<rparr>"

definition returnBalances_index :: "transport \<Rightarrow> int \<Rightarrow> IPoloniexClient_index \<Rightarrow> IPoloniexClient_index call" where
  "returnBalances_index axios now this =
     (let command = JStr ''returnBalances'';
          nonce = JNum (generateNonce now);
          params = JObj [(''command'', command), (''nonce'', nonce)]
      in on_rawClient this (postToPrivateEndpoint_index axios (rawClient this) params))"

declare digits_of.simps [simp del]

section \<open>Objects and spreads\<close>

lemma obj_get_obj_set: "obj_get (obj_set ps k v) k' = (if k' = k then v else obj_get ps k')"
  by (induction ps) (auto simp: obj_get_def)

lemma map_fst_obj_set:
  "map fst (obj_set ps k v) = (if k \<in> fst ` set ps then map fst ps else map fst ps @ [k])"
  by (induction ps) force+

lemma keys_obj_set: "fst ` set (obj_set ps k v) = insert k (fst ` set ps)"
proof -
  have "set (map fst (obj_set ps k v)) = insert k (set (map fst ps))"
    unfolding map_fst_obj_set by auto
  then show ?thesis by simp
qed

lemma obj_get_fold_notin:
  "k \<notin> fst ` set qs \<Longrightarrow>
   obj_get (fold (\<lambda>(k, x) ps. obj_set ps k x) qs acc) k = obj_get acc k"
  by (induction qs arbitrary: acc) (auto simp: obj_get_obj_set)

lemma keys_fold:
  "fst ` set (fold (\<lambda>(k, x) ps. obj_set ps k x) qs acc) = fst ` set acc \<union> fst ` set qs"
proof (induction qs arbitrary: acc)
  case Nil
  show ?case by simp
next
  case (Cons q qs)
  obtain k x where q: "q = (k, x)" by (cases q)
  show ?case using Cons.IH [of "obj_set acc k x"] by (simp add: q keys_obj_set)
qed

lemma obj_get_spread_notin:
  "k \<notin> fst ` set (own_props v) \<Longrightarrow> obj_get (spread acc v) k = obj_get acc k"
  by (simp add: spread_def obj_get_fold_notin)

lemma keys_spread:
  "fst ` set (spread acc v) = fst ` set acc \<union> fst ` set (own_props v)"
  by (simp add: spread_def keys_fold)

lemma obj_get_notin: "k \<notin> fst ` set ps \<Longrightarrow> obj_get ps k = JUndefined"
proof -
  assume "k \<notin> fst ` set ps"
  then have "map_of ps k = None" by (simp add: map_of_eq_None_iff)
  then show ?thesis by (simp add: obj_get_def)
qed

lemma spread_nothing [simp]: "spread acc JUndefined = acc" "spread acc JNull = acc"
  by (simp_all add: spread_def)

lemma spread_defaultConfig: "spread [] (JObj defaultConfig) = defaultConfig"
  by (simp add: spread_def defaultConfig_def)

lemma privateAgentConfig_value:
  "privateAgentConfig =
     [(''baseURL'', JStr ''https://poloniex.com''),
      (''headers'', JObj [(''User-Agent'',
          JStr ''Poloniex API Client (poloniex-exchange-api node package)'')]),
      (''method'', JStr ''POST''),
      (''timeout'', JNum 5000),
      (''validateStatus'', JFunc ''() => true'')]"
  by (simp add: privateAgentConfig_def spread_def defaultAgentConfig_def defaultConfig_def obj_get_def)

lemma publicAgentConfig_value:
  "publicAgentConfig =
     [(''baseURL'', JStr ''https://poloniex.com''),
      (''headers'', JObj [(''User-Agent'',
          JStr ''Poloniex API Client (poloniex-exchange-api node package)'')]),
      (''method'', JStr ''GET''),
      (''timeout'', JNum 5000),
      (''validateStatus'', JFunc ''() => true'')]"
  by (simp add: publicAgentConfig_def spread_def defaultAgentConfig_def defaultConfig_def obj_get_def)

lemma privateAgentConfig_index_value:
  "privateAgentConfig_index =
     [(''baseURL'', JStr ''https://poloniex.com''),
      (''headers'', JObj [(''User-Agent'', JStr ''Poloniex API Client (poloniex-api node package)'')]),
      (''method'', JStr ''POST''),
      (''timeout'', JNum 5000)]"
  by (simp add: privateAgentConfig_index_def spread_def defaultAgentConfig_index_def
      defaultConfig_def obj_get_def)

lemma publicAgentConfig_index_value:
  "publicAgentConfig_index =
     [(''baseURL'', JStr ''https://poloniex.com''),
      (''headers'', JObj [(''User-Agent'', JStr ''Poloniex API Client (poloniex-api node package)'')]),
      (''method'', JStr ''GET''),
      (''timeout'', JNum 5000)]"
  by (simp add: publicAgentConfig_index_def spread_def defaultAgentConfig_index_def
      defaultConfig_def obj_get_def)

section \<open>The signature\<close>

lemma length_bytes_of_word: "length (bytes_of_word w) = 8"
  by (simp add: bytes_of_word_def)

lemma length_sha512_digest: "length (sha512_digest s) = 64"
  by (induction s rule: sha512_digest.induct) (simp add: length_bytes_of_word)

lemma length_sha512: "length (sha512 m) = 64"
  by (simp add: sha512_def Let_def length_sha512_digest)

lemma length_hmac_sha512: "length (hmac_sha512 key m) = 64"
  by (simp add: hmac_sha512_def Let_def length_sha512)

lemma length_hex_of_bytes: "length (hex_of_bytes bs) = 2 * length bs"
  by (induction bs) (simp_all add: hex_of_bytes_def)

lemma hex_lower_digit: "hex_lower n \<in> set ''0123456789abcdef''"
proof -
  have "n mod 16 < length ''0123456789abcdef''" by simp
  then show ?thesis unfolding hex_lower_def by (rule nth_mem)
qed

lemma set_hex_of_bytes: "set (hex_of_bytes bs) \<subseteq> set ''0123456789abcdef''"
proof (induction bs)
  case Nil
  show ?case by (simp add: hex_of_bytes_def)
next
  case (Cons b bs)
  have "hex_of_bytes (b # bs) = hex_lower (unat b div 16) # hex_lower (unat b) # hex_of_bytes bs"
    by (simp add: hex_of_bytes_def)
  then show ?case using Cons.IH hex_lower_digit [of "unat b div 16"] hex_lower_digit [of "unat b"]
    by simp
qed

text \<open>
  C8. For every parameter object and every secret (the empty string included),
  \<open>signMessage\<close> returns a string of exactly 128 characters, each of them a
  lower-case hexadecimal digit.
\<close>

theorem signMessage_128_lowercase_hex:
  "length (signMessage postBody key) = 128 \<and>
   set (signMessage postBody key) \<subseteq> set ''0123456789abcdef''"
  by (simp only: signMessage_def Let_def createHmac_sha512_hex_def length_hex_of_bytes
      length_hmac_sha512 set_hex_of_bytes) simp

section \<open>The configurations the raw objects build\<close>

lemma keys_set: "set (keys v) = fst ` set (own_props v)"
  by (simp add: keys_def)

text \<open>Read as a condition, as in \<open>!this.isUpgraded()\<close>, the returned value tells
  whether credentials are present.\<close>

lemma isUpgraded_auth: "truthy (isUpgraded this) = (auth this \<noteq> None)"
  by (simp add: isUpgraded_def auth_value_def split: option.splits)

lemma keys_config:
  "fst ` set (spread (spread [] (JObj defaultConfig)) configOverride) =
     {''rootUrl'', ''timeout''} \<union> fst ` set (own_props configOverride)"
  by (simp add: keys_spread spread_defaultConfig) (simp add: defaultConfig_def)

lemma config_no_headers:
  assumes "''headers'' \<notin> fst ` set (own_props configOverride)"
  shows "obj_get (spread (spread [] (JObj defaultConfig)) configOverride) ''headers'' = JUndefined"
  by (rule obj_get_notin) (simp add: keys_config assms)

lemma private_headers_value:
  "obj_set (obj_set (spread [] (obj_get privateAgentConfig ''headers'')) ''Key'' k) ''Sign'' s =
     [(''User-Agent'', JStr ''Poloniex API Client (poloniex-exchange-api node package)''),
      (''Key'', k), (''Sign'', s)]"
  by (simp add: privateAgentConfig_value obj_get_def spread_def)

lemma private_headers_index_value:
  "obj_set (obj_set (spread [] (obj_get privateAgentConfig_index ''headers'')) ''Key'' k) ''Sign'' s =
     [(''User-Agent'', JStr ''Poloniex API Client (poloniex-api node package)''),
      (''Key'', k), (''Sign'', s)]"
  by (simp add: privateAgentConfig_index_value obj_get_def spread_def)

lemma private_base_value:
  "obj_set (obj_set (obj_set (spread [] (JObj privateAgentConfig)) ''headers'' h) ''url'' u) ''data'' d =
     [(''baseURL'', JStr ''https://poloniex.com''), (''headers'', h), (''method'', JStr ''POST''),
      (''timeout'', JNum 5000), (''validateStatus'', JFunc ''() => true''), (''url'', u),
      (''data'', d)]"
  by (simp add: privateAgentConfig_value spread_def)

lemma private_base_index_value:
  "obj_set (obj_set (obj_set (spread [] (JObj privateAgentConfig_index)) ''headers'' h) ''url'' u) ''data'' d =
     [(''baseURL'', JStr ''https://poloniex.com''), (''headers'', h), (''method'', JStr ''POST''),
      (''timeout'', JNum 5000), (''url'', u), (''data'', d)]"
  by (simp add: privateAgentConfig_index_value spread_def)

lemma public_base_value:
  "obj_set (spread [] (JObj publicAgentConfig)) ''url'' u =
     [(''baseURL'', JStr ''https://poloniex.com''),
      (''headers'', JObj [(''User-Agent'',
          JStr ''Poloniex API Client (poloniex-exchange-api node package)'')]),
      (''method'', JStr ''GET''), (''timeout'', JNum 5000),
      (''validateStatus'', JFunc ''() => true''), (''url'', u)]"
  by (simp add: publicAgentConfig_value spread_def)

lemma public_base_index_value:
  "obj_set (spread [] (JObj publicAgentConfig_index)) ''url'' u =
     [(''baseURL'', JStr ''https://poloniex.com''),
      (''headers'', JObj [(''User-Agent'', JStr ''Poloniex API Client (poloniex-api node package)'')]),
      (''method'', JStr ''GET''), (''timeout'', JNum 5000), (''url'', u)]"
  by (simp add: publicAgentConfig_index_value spread_def)

lemma sent_private:
  assumes "auth this = Some a"
  shows "sent (postToPrivateEndpoint axios this data configOverride) =
     [JObj (spread
        [(''baseURL'', JStr ''https://poloniex.com''),
         (''headers'', JObj (spread
            [(''User-Agent'', JStr ''Poloniex API Client (poloniex-exchange-api node package)''),
             (''Key'', JStr (publicKey a)),
             (''Sign'', JStr (signMessage data (privateKey a)))]
            (obj_get (spread (spread [] (JObj defaultConfig)) configOverride) ''headers''))),
         (''method'', JStr ''POST''), (''timeout'', JNum 5000),
         (''validateStatus'', JFunc ''() => true''), (''url'', JStr ''/tradingApi''),
         (''data'', JStr (stringify data))]
        (JObj (spread (spread [] (JObj defaultConfig)) configOverride)))]"
  by (simp add: postToPrivateEndpoint_def isUpgraded_auth assms Let_def private_headers_value
      private_base_value)

lemma sent_private_index:
  assumes "auth this = Some a"
  shows "sent (postToPrivateEndpoint_index axios this data) =
     [JObj
        [(''baseURL'', JStr ''https://poloniex.com''),
         (''headers'', JObj
            [(''User-Agent'', JStr ''Poloniex API Client (poloniex-api node package)''),
             (''Key'', JStr (publicKey a)),
             (''Sign'', JStr (signMessage data (privateKey a)))]),
         (''method'', JStr ''POST''), (''timeout'', JNum 5000), (''url'', JStr ''/tradingApi''),
         (''data'', JStr (stringify data))]]"
  by (simp add: postToPrivateEndpoint_index_def isUpgraded_auth assms Let_def
      private_headers_index_value private_base_index_value)

lemma sent_public:
  "sent (getPublicEndpoint axios this queryParams configOverride) =
     [JObj (spread
        [(''baseURL'', JStr ''https://poloniex.com''),
         (''headers'', JObj [(''User-Agent'',
            JStr ''Poloniex API Client (poloniex-exchange-api node package)'')]),
         (''method'', JStr ''GET''), (''timeout'', JNum 5000),
         (''validateStatus'', JFunc ''() => true''),
         (''url'', JStr (''/public?'' @ stringify queryParams))]
        (JObj (spread (spread [] (JObj defaultConfig)) configOverride)))]"
  by (simp add: getPublicEndpoint_def Let_def public_base_value)

lemma sent_public_index:
  "sent (getPublicEndpoint_index axios this queryParams) =
     [JObj
        [(''baseURL'', JStr ''https://poloniex.com''),
         (''headers'', JObj [(''User-Agent'', JStr ''Poloniex API Client (poloniex-api node package)'')]),
         (''method'', JStr ''GET''), (''timeout'', JNum 5000),
         (''url'', JStr (''/public?'' @ stringify queryParams))]]"
  by (simp add: getPublicEndpoint_index_def Let_def public_base_index_value)

section \<open>Private requests\<close>

lemma signMessage_unfold:
  "signMessage data key = createHmac_sha512_hex key (stringify data)"
  by (simp add: signMessage_def)

lemma private_config_index:
  assumes "auth this = Some a"
  shows "sent (postToPrivateEndpoint_index axios this data) =
       [JObj
          [(''baseURL'', JStr ''https://poloniex.com''),
           (''headers'', JObj
              [(''User-Agent'', JStr ''Poloniex API Client (poloniex-api node package)''),
               (''Key'', JStr (publicKey a)),
               (''Sign'', JStr (createHmac_sha512_hex (privateKey a) (stringify data)))]),
           (''method'', JStr ''POST''), (''timeout'', JNum 5000), (''url'', JStr ''/tradingApi''),
           (''data'', JStr (stringify data))]]"
  using sent_private_index [OF assms] by (simp only: signMessage_unfold)

lemma private_config_agent:
  assumes "auth this = Some a"
    and "''method'' \<notin> set (keys configOverride)"
    and "''data'' \<notin> set (keys configOverride)"
    and "''headers'' \<notin> set (keys configOverride)"
  shows "\<exists>cfg. sent (postToPrivateEndpoint axios this data configOverride) = [JObj cfg] \<and>
        obj_get cfg ''method'' = JStr ''POST'' \<and>
        obj_get cfg ''data'' = JStr (stringify data) \<and>
        obj_get cfg ''headers'' = JObj
          [(''User-Agent'', JStr ''Poloniex API Client (poloniex-exchange-api node package)''),
           (''Key'', JStr (publicKey a)),
           (''Sign'', JStr (createHmac_sha512_hex (privateKey a) (stringify data)))]"
proof -
  let ?config = "spread (spread [] (JObj defaultConfig)) configOverride"
  have notin: "''method'' \<notin> fst ` set (own_props (JObj ?config))"
    "''data'' \<notin> fst ` set (own_props (JObj ?config))"
    "''headers'' \<notin> fst ` set (own_props (JObj ?config))"
    using assms(2-4) by (simp_all add: keys_config keys_set)
  have "''headers'' \<notin> fst ` set (own_props configOverride)"
    using assms(4) by (simp add: keys_set)
  then have hdr: "obj_get ?config ''headers'' = JUndefined"
    by (rule config_no_headers)
  show ?thesis
    unfolding sent_private [OF assms(1)] hdr
    by (simp add: obj_get_spread_notin [OF notin(1)] obj_get_spread_notin [OF notin(2)]
        obj_get_spread_notin [OF notin(3)] signMessage_unfold del: stringify.simps)
      (simp add: obj_get_def)
qed

text \<open>In the headers of a private request, \<open>Key\<close> and \<open>Sign\<close> are written after
  the base headers: on a shared name theirs is the value that stays.\<close>

lemma request_headers_precedence:
  "obj_get (obj_set (obj_set (spread [] base) ''Key'' k) ''Sign'' s) h =
     (if h = ''Sign'' then s else if h = ''Key'' then k else obj_get (spread [] base) h)"
  by (simp add: obj_get_obj_set)

text \<open>
  C1, as amended. On an authenticated raw object, \<open>postToPrivateEndpoint\<close> hands the
  transport one configuration. In \<open>index.ts\<close> it is the POST configuration whose
  \<open>data\<close> is the serialization of the parameters and whose headers are the base
  \<open>User-Agent\<close>, \<open>Key\<close> (the stored public key) and \<open>Sign\<close> (the HMAC of that very
  serialization under the stored private key). With request overrides the same holds of
  the method, the data and the headers whenever the override names none of
  \<open>method\<close>, \<open>data\<close> and \<open>headers\<close> (in particular when there is none).
\<close>

theorem postToPrivateEndpoint_signed_request:
  assumes "auth this = Some a"
    and "''method'' \<notin> set (keys configOverride)"
    and "''data'' \<notin> set (keys configOverride)"
    and "''headers'' \<notin> set (keys configOverride)"
  shows
    "sent (postToPrivateEndpoint_index axios this data) =
       [JObj
          [(''baseURL'', JStr ''https://poloniex.com''),
           (''headers'', JObj
              [(''User-Agent'', JStr ''Poloniex API Client (poloniex-api node package)''),
               (''Key'', JStr (publicKey a)),
               (''Sign'', JStr (createHmac_sha512_hex (privateKey a) (stringify data)))]),
           (''method'', JStr ''POST''), (''timeout'', JNum 5000), (''url'', JStr ''/tradingApi''),
           (''data'', JStr (stringify data))]] \<and>
     (\<exists>cfg. sent (postToPrivateEndpoint axios this data configOverride) = [JObj cfg] \<and>
        obj_get cfg ''method'' = JStr ''POST'' \<and>
        obj_get cfg ''data'' = JStr (stringify data) \<and>
        obj_get cfg ''headers'' = JObj
          [(''User-Agent'', JStr ''Poloniex API Client (poloniex-exchange-api node package)''),
           (''Key'', JStr (publicKey a)),
           (''Sign'', JStr (createHmac_sha512_hex (privateKey a) (stringify data)))]) \<and>
     signMessage data (privateKey a) = createHmac_sha512_hex (privateKey a) (stringify data)"
  using private_config_index [OF assms(1)] private_config_agent [OF assms] signMessage_unfold
  by blast

text \<open>The balances request of a client with the keys \<open>PUB\<close> and \<open>SECRET\<close> and no
  request override.\<close>

theorem postToPrivateEndpoint_signed_request_witness:
  "sent (postToPrivateEndpoint_index (\<lambda>cfg. Inr JNull)
       (getRawAgent (Some \<lparr>publicKey = ''PUB'', privateKey = ''SECRET''\<rparr>))
       (JObj [(''command'', JStr ''returnBalances''), (''nonce'', JNum 1500000000000000)])) =
     [JObj
        [(''baseURL'', JStr ''https://poloniex.com''),
         (''headers'', JObj
            [(''User-Agent'', JStr ''Poloniex API Client (poloniex-api node package)''),
             (''Key'', JStr ''PUB''),
             (''Sign'', JStr (createHmac_sha512_hex ''SECRET''
                (stringify (JObj [(''command'', JStr ''returnBalances''),
                   (''nonce'', JNum 1500000000000000)]))))]),
         (''method'', JStr ''POST''), (''timeout'', JNum 5000), (''url'', JStr ''/tradingApi''),
         (''data'', JStr (stringify (JObj [(''command'', JStr ''returnBalances''),
            (''nonce'', JNum 1500000000000000)])))]] \<and>
   (\<exists>cfg. sent (postToPrivateEndpoint (\<lambda>cfg. Inr JNull)
        (getRawAgent (Some \<lparr>publicKey = ''PUB'', privateKey = ''SECRET''\<rparr>))
        (JObj [(''command'', JStr ''returnBalances''), (''nonce'', JNum 1500000000000000)])
        JNull) = [JObj cfg] \<and>
      obj_get cfg ''method'' = JStr ''POST'' \<and>
      obj_get cfg ''data'' = JStr (stringify (JObj [(''command'', JStr ''returnBalances''),
            (''nonce'', JNum 1500000000000000)])) \<and>
      obj_get cfg ''headers'' = JObj
        [(''User-Agent'', JStr ''Poloniex API Client (poloniex-exchange-api node package)''),
         (''Key'', JStr ''PUB''),
         (''Sign'', JStr (createHmac_sha512_hex ''SECRET''
            (stringify (JObj [(''command'', JStr ''returnBalances''),
               (''nonce'', JNum 1500000000000000)]))))])"
proof -
  have a: "auth (getRawAgent (Some \<lparr>publicKey = ''PUB'', privateKey = ''SECRET''\<rparr>)) =
      Some \<lparr>publicKey = ''PUB'', privateKey = ''SECRET''\<rparr>"
    by (simp add: getRawAgent_def)
  have k: "''method'' \<notin> set (keys JNull)" "''data'' \<notin> set (keys JNull)"
    "''headers'' \<notin> set (keys JNull)"
    by (simp_all add: keys_def)
  show ?thesis
    using postToPrivateEndpoint_signed_request [OF a k, where axios = "\<lambda>cfg. Inr JNull"
        and data = "JObj [(''command'', JStr ''returnBalances''), (''nonce'', JNum 1500000000000000)]"]
    unfolding IApiAuth.simps by blast
qed

text \<open>The claim as first stated fails where the request override names the method:
  the configuration handed to the transport is a GET.\<close>

theorem postToPrivateEndpoint_override_counterexample:
  "sent (postToPrivateEndpoint (\<lambda>cfg. Inr JNull)
      (getRawAgent (Some \<lparr>publicKey = ''PUB'', privateKey = ''SECRET''\<rparr>))
      (JObj [(''command'', JStr ''returnBalances''), (''nonce'', JNum 1500000000000000)])
      (JObj [(''method'', JStr ''GET'')])) =
   [JObj
      [(''baseURL'', JStr ''https://poloniex.com''),
       (''headers'', JObj
          [(''User-Agent'', JStr ''Poloniex API Client (poloniex-exchange-api node package)''),
           (''Key'', JStr ''PUB''),
           (''Sign'', JStr (signMessage (JObj [(''command'', JStr ''returnBalances''),
              (''nonce'', JNum 1500000000000000)]) ''SECRET''))]),
       (''method'', JStr ''GET''), (''timeout'', JNum 5000),
       (''validateStatus'', JFunc ''() => true''), (''url'', JStr ''/tradingApi''),
       (''data'', JStr (stringify (JObj [(''command'', JStr ''returnBalances''),
          (''nonce'', JNum 1500000000000000)]))),
       (''rootUrl'', JStr ''https://poloniex.com'')]]"
proof -
  have a: "auth (getRawAgent (Some \<lparr>publicKey = ''PUB'', privateKey = ''SECRET''\<rparr>)) =
      Some \<lparr>publicKey = ''PUB'', privateKey = ''SECRET''\<rparr>"
    by (simp add: getRawAgent_def)
  show ?thesis
    unfolding sent_private [OF a]
    by (simp add: spread_def defaultConfig_def obj_get_def del: stringify.simps)
qed

text \<open>An override that names \<open>headers\<close> replaces the merged headers whole: the last
  spread of the configuration writes the override's \<open>headers\<close> over the object that
  holds \<open>Key\<close> and \<open>Sign\<close>.\<close>

lemma postToPrivateEndpoint_headers_override:
  "sent (postToPrivateEndpoint (\<lambda>cfg. Inr JNull)
      (getRawAgent (Some \<lparr>publicKey = ''PUB'', privateKey = ''SECRET''\<rparr>))
      (JObj [(''command'', JStr ''returnBalances''), (''nonce'', JNum 1500000000000000)])
      (JObj [(''headers'', JObj [(''X-Trace'', JStr ''1'')])])) =
   [JObj
      [(''baseURL'', JStr ''https://poloniex.com''),
       (''headers'', JObj [(''X-Trace'', JStr ''1'')]),
       (''method'', JStr ''POST''), (''timeout'', JNum 5000),
       (''validateStatus'', JFunc ''() => true''), (''url'', JStr ''/tradingApi''),
       (''data'', JStr (stringify (JObj [(''command'', JStr ''returnBalances''),
          (''nonce'', JNum 1500000000000000)]))),
       (''rootUrl'', JStr ''https://poloniex.com'')]]"
proof -
  have a: "auth (getRawAgent (Some \<lparr>publicKey = ''PUB'', privateKey = ''SECRET''\<rparr>)) =
      Some \<lparr>publicKey = ''PUB'', privateKey = ''SECRET''\<rparr>"
    by (simp add: getRawAgent_def)
  show ?thesis
    unfolding sent_private [OF a]
    by (simp add: spread_def defaultConfig_def obj_get_def del: stringify.simps)
qed

text \<open>
  C2. On a raw object without credentials, \<open>postToPrivateEndpoint\<close> is rejected at
  once with its \<open>not authenticated\<close> reason (\<open>api keys are required to access
  private endpoints\<close> in \<open>index.ts\<close>), and nothing is handed to the transport.
\<close>

theorem postToPrivateEndpoint_unauthenticated:
  assumes "\<not> truthy (isUpgraded this)"
  shows
    "outcome (postToPrivateEndpoint axios this data configOverride) =
       Inl (Reason (JStr ''not authenticated'')) \<and>
     sent (postToPrivateEndpoint axios this data configOverride) = [] \<and>
     outcome (postToPrivateEndpoint_index axios this data) =
       Inl (Reason (JStr ''api keys are required to access private endpoints'')) \<and>
     sent (postToPrivateEndpoint_index axios this data) = []"
  using assms by (simp add: postToPrivateEndpoint_def postToPrivateEndpoint_index_def)

theorem postToPrivateEndpoint_unauthenticated_witness:
  "\<not> truthy (isUpgraded (getRawAgent None)) \<and>
   outcome (postToPrivateEndpoint (\<lambda>cfg. Inr JNull) (getRawAgent None)
      (JObj [(''command'', JStr ''returnBalances''), (''nonce'', JNum 1500000000000000)]) JNull) =
     Inl (Reason (JStr ''not authenticated'')) \<and>
   sent (postToPrivateEndpoint (\<lambda>cfg. Inr JNull) (getRawAgent None)
      (JObj [(''command'', JStr ''returnBalances''), (''nonce'', JNum 1500000000000000)]) JNull) = [] \<and>
   outcome (postToPrivateEndpoint_index (\<lambda>cfg. Inr JNull) (getRawAgent None)
      (JObj [(''command'', JStr ''returnBalances''), (''nonce'', JNum 1500000000000000)])) =
     Inl (Reason (JStr ''api keys are required to access private endpoints'')) \<and>
   sent (postToPrivateEndpoint_index (\<lambda>cfg. Inr JNull) (getRawAgent None)
      (JObj [(''command'', JStr ''returnBalances''), (''nonce'', JNum 1500000000000000)])) = []"
proof -
  have h: "\<not> truthy (isUpgraded (getRawAgent None))"
    by (simp add: isUpgraded_auth getRawAgent_def)
  show ?thesis using h postToPrivateEndpoint_unauthenticated [OF h] by blast
qed

subsection \<open>Transport failures\<close>

lemma outcome_private_index:
  assumes "truthy (isUpgraded this)"
  shows "outcome (postToPrivateEndpoint_index axios this data) =
     (case axios (hd (sent (postToPrivateEndpoint_index axios this data))) of
        Inr response \<Rightarrow> Inr response
      | Inl err \<Rightarrow> Inl (rejectionReason err))"
  using assms
  by (auto simp: postToPrivateEndpoint_index_def isUpgraded_auth Let_def split: option.splits)

lemma outcome_private:
  assumes "truthy (isUpgraded this)"
  shows "outcome (postToPrivateEndpoint axios this data configOverride) =
     send axios (hd (sent (postToPrivateEndpoint axios this data configOverride)))"
  using assms
  by (auto simp: postToPrivateEndpoint_def isUpgraded_auth Let_def split: option.splits)

lemma rejectionReason_unwrap:
  assumes "member err ''response'' = Inr response"
    and "member response ''data'' = Inr d"
    and "member d ''error'' = Inr e"
  shows "rejectionReason err = Reason (if truthy e then e else if truthy d then d else response)"
proof -
  obtain ps where "response = JObj ps"
    using assms(2,3) by (cases response) auto
  then have "truthy response" by simp
  then show ?thesis by (simp add: rejectionReason_def assms js_or_def)
qed

text \<open>In \<open>index.ts\<close> an error without a response (a network failure) makes the first
  property read throw, so that the raw error never comes out of the chain.\<close>

lemma rejectionReason_no_response:
  "rejectionReason (JObj [(''message'', JStr ''timeout of 5000ms exceeded'')]) =
     TypeError ''read data of undefined''"
  by (simp add: rejectionReason_def obj_get_def)

text \<open>
  C3, as amended. When the transport rejects the request of an authenticated raw
  object with \<open>err\<close>: in \<open>index.ts\<close>, if \<open>err.response\<close> and \<open>err.response.data\<close> can
  be read and the data is neither \<open>undefined\<close> nor \<open>null\<close>, the rejection is
  \<open>data.error\<close> when that is truthy, else the data when they are truthy, else the
  response; with request overrides, the rejection is \<open>err\<close> itself, unchanged.
\<close>

theorem postToPrivateEndpoint_rejection:
  assumes "truthy (isUpgraded this)"
    and "axios (hd (sent (postToPrivateEndpoint_index axios this data))) = Inl err"
    and "member err ''response'' = Inr response"
    and "member response ''data'' = Inr d"
    and "member d ''error'' = Inr e"
    and "axios' (hd (sent (postToPrivateEndpoint axios' this data configOverride))) = Inl err'"
  shows
    "outcome (postToPrivateEndpoint_index axios this data) =
       Inl (Reason (if truthy e then e else if truthy d then d else response)) \<and>
     outcome (postToPrivateEndpoint axios' this data configOverride) = Inl (Reason err')"
  by (simp add: outcome_private_index [OF assms(1)] outcome_private [OF assms(1)] assms(2,6)
      rejectionReason_unwrap [OF assms(3-5)] send_def)

text \<open>The scenario of the error body \<open>{error: "Invalid nonce"}\<close> in \<open>index.ts\<close>, and a
  network error with request overrides.\<close>

theorem postToPrivateEndpoint_rejection_witness:
  "outcome (postToPrivateEndpoint_index
      (\<lambda>cfg. Inl (JObj [(''response'', JObj [(''data'', JObj [(''error'', JStr ''Invalid nonce'')])])]))
      (getRawClient (Some \<lparr>publicKey = ''PUB'', privateKey = ''SECRET''\<rparr>))
      (JObj [(''command'', JStr ''returnBalances''), (''nonce'', JNum 1500000000000000)])) =
     Inl (Reason (JStr ''Invalid nonce'')) \<and>
   outcome (postToPrivateEndpoint
      (\<lambda>cfg. Inl (JObj [(''message'', JStr ''Network Error'')]))
      (getRawClient (Some \<lparr>publicKey = ''PUB'', privateKey = ''SECRET''\<rparr>))
      (JObj [(''command'', JStr ''returnBalances''), (''nonce'', JNum 1500000000000000)]) JNull) =
     Inl (Reason (JObj [(''message'', JStr ''Network Error'')]))"
proof -
  have u: "truthy (isUpgraded (getRawClient (Some \<lparr>publicKey = ''PUB'', privateKey = ''SECRET''\<rparr>)))"
    by (simp add: isUpgraded_auth getRawClient_def)
  have m1: "member (JObj [(''response'', JObj [(''data'', JObj [(''error'', JStr ''Invalid nonce'')])])])
      ''response'' = Inr (JObj [(''data'', JObj [(''error'', JStr ''Invalid nonce'')])])"
    by (simp add: obj_get_def)
  have m2: "member (JObj [(''data'', JObj [(''error'', JStr ''Invalid nonce'')])]) ''data'' =
      Inr (JObj [(''error'', JStr ''Invalid nonce'')])"
    by (simp add: obj_get_def)
  have m3: "member (JObj [(''error'', JStr ''Invalid nonce'')]) ''error'' = Inr (JStr ''Invalid nonce'')"
    by (simp add: obj_get_def)
  show ?thesis
    using postToPrivateEndpoint_rejection [OF u _ m1 m2 m3,
        where axios = "\<lambda>cfg. Inl (JObj [(''response'', JObj [(''data'', JObj [(''error'', JStr ''Invalid nonce'')])])])"
        and axios' = "\<lambda>cfg. Inl (JObj [(''message'', JStr ''Network Error'')])"
        and err' = "JObj [(''message'', JStr ''Network Error'')]"
        and data = "JObj [(''command'', JStr ''returnBalances''), (''nonce'', JNum 1500000000000000)]"
        and configOverride = JNull]
    by simp
qed

text \<open>The claim as first stated fails with request overrides: the same error body comes
  back inside the transport's error, not as the string \<open>Invalid nonce\<close>.\<close>

theorem postToPrivateEndpoint_raw_error_counterexample:
  "outcome (postToPrivateEndpoint
      (\<lambda>cfg. Inl (JObj [(''response'', JObj [(''data'', JObj [(''error'', JStr ''Invalid nonce'')])])]))
      (getRawAgent (Some \<lparr>publicKey = ''PUB'', privateKey = ''SECRET''\<rparr>))
      (JObj [(''command'', JStr ''returnBalances''), (''nonce'', JNum 1500000000000000)]) JNull) =
     Inl (Reason (JObj [(''response'', JObj [(''data'', JObj [(''error'', JStr ''Invalid nonce'')])])])) \<and>
   JObj [(''response'', JObj [(''data'', JObj [(''error'', JStr ''Invalid nonce'')])])] \<noteq>
     JStr ''Invalid nonce''"
proof -
  have u: "truthy (isUpgraded (getRawAgent (Some \<lparr>publicKey = ''PUB'', privateKey = ''SECRET''\<rparr>)))"
    by (simp add: isUpgraded_auth getRawAgent_def)
  show ?thesis by (simp add: outcome_private [OF u] send_def)
qed

section \<open>Credentials\<close>

text \<open>
  C4. In \<open>index.ts\<close> the client's \<open>upgrade\<close> calls a method the raw client does not
  have: on a client built without credentials, \<open>upgrade\<close> with the keys \<open>PUB\<close> and
  \<open>SECRET\<close> throws, the client stays without credentials, and the next private
  request is rejected for want of keys.
\<close>

theorem client_upgrade_index_throws:
  "outcome (client_upgrade_index (getClient_index None)
      \<lparr>publicKey = ''PUB'', privateKey = ''SECRET''\<rparr>) =
     Inl (TypeError ''call rawClient.update of undefined'') \<and>
   \<not> truthy (client_isUpgraded_index
       (receiver (client_upgrade_index (getClient_index None)
          \<lparr>publicKey = ''PUB'', privateKey = ''SECRET''\<rparr>))) \<and>
   outcome (returnBalances_index (\<lambda>cfg. Inr JNull) 1500000000000
       (receiver (client_upgrade_index (getClient_index None)
          \<lparr>publicKey = ''PUB'', privateKey = ''SECRET''\<rparr>))) =
     Inl (Reason (JStr ''api keys are required to access private endpoints''))"
  by (simp add: client_upgrade_index_def getClient_index_def getRawClient_def
      client_isUpgraded_index_def isUpgraded_auth returnBalances_index_def on_rawClient_def
      postToPrivateEndpoint_index_def)

text \<open>Where \<open>upgrade\<close> reaches the raw object (the client with request overrides, and
  the raw objects of every file), it replaces the credentials whole and cannot fail, and
  the next private request carries the newest pair.\<close>

lemma client_upgrade_replaces:
  "auth (rawAgent (receiver (client_upgrade (receiver (client_upgrade c first)) second))) =
     Some second \<and>
   outcome (client_upgrade c first) = Inr JUndefined \<and>
   auth (upgrade (upgrade this first) second) = Some second"
  by (simp add: client_upgrade_def upgrade_def)

lemma upgrade_twice_then_private:
  assumes "''method'' \<notin> set (keys (requestConfig c))"
    and "''data'' \<notin> set (keys (requestConfig c))"
    and "''headers'' \<notin> set (keys (requestConfig c))"
  shows "\<exists>cfg. sent (returnBalances axios now
            (receiver (client_upgrade (receiver (client_upgrade c first)) second))) = [JObj cfg] \<and>
          obj_get cfg ''headers'' = JObj
            [(''User-Agent'', JStr ''Poloniex API Client (poloniex-exchange-api node package)''),
             (''Key'', JStr (publicKey second)),
             (''Sign'', JStr (createHmac_sha512_hex (privateKey second)
                (stringify (JObj [(''command'', JStr ''returnBalances''),
                   (''nonce'', JNum (generateNonce now))]))))]"
proof -
  let ?c = "receiver (client_upgrade (receiver (client_upgrade c first)) second)"
  have a: "auth (rawAgent ?c) = Some second"
    by (simp add: client_upgrade_def upgrade_def)
  have rc: "requestConfig ?c = requestConfig c"
    by (simp add: client_upgrade_def)
  have "sent (returnBalances axios now ?c) =
      sent (postToPrivateEndpoint axios (rawAgent ?c)
        (JObj [(''command'', JStr ''returnBalances''), (''nonce'', JNum (generateNonce now))])
        (requestConfig c))"
    by (simp add: returnBalances_def on_rawAgent_def Let_def rc del: stringify.simps)
  then show ?thesis
    using private_config_agent [OF a assms, of axios
        "JObj [(''command'', JStr ''returnBalances''), (''nonce'', JNum (generateNonce now))]"]
    by auto
qed

text \<open>Read as a condition, \<open>isUpgraded\<close> is false on a client built without
  credentials and true right after \<open>upgrade\<close>, which returns normally where it reaches
  the raw object.\<close>

lemma client_isUpgraded_condition:
  "truthy (client_isUpgraded c) = (auth (rawAgent c) \<noteq> None) \<and>
   \<not> truthy (client_isUpgraded (getClient None cfg)) \<and>
   truthy (client_isUpgraded (receiver (client_upgrade c newAuth))) \<and>
   outcome (client_upgrade c newAuth) = Inr JUndefined"
  by (simp add: isUpgraded_auth client_isUpgraded_def getClient_def getRawAgent_def
      client_upgrade_def upgrade_def)

text \<open>
  C5. \<open>isUpgraded\<close> is declared and documented to return a boolean, but it returns
  the \<open>auth\<close> property: on a client built without credentials the call gives
  \<open>undefined\<close>, not \<open>false\<close>, and right after \<open>upgrade\<close> with the keys \<open>PUB\<close>
  and \<open>SECRET\<close> it gives the credentials object (private key included), not \<open>true\<close>.
\<close>

theorem isUpgraded_returns_auth:
  "isUpgraded (getRawAgent None) = JUndefined \<and>
   client_isUpgraded (getClient None JUndefined) = JUndefined \<and>
   client_isUpgraded (getClient None JUndefined) \<noteq> JBool False \<and>
   client_isUpgraded (receiver (client_upgrade (getClient None JUndefined)
       \<lparr>publicKey = ''PUB'', privateKey = ''SECRET''\<rparr>)) =
     JObj [(''publicKey'', JStr ''PUB''), (''privateKey'', JStr ''SECRET'')] \<and>
   client_isUpgraded (receiver (client_upgrade (getClient None JUndefined)
       \<lparr>publicKey = ''PUB'', privateKey = ''SECRET''\<rparr>)) \<noteq> JBool True"
  by (simp add: isUpgraded_def auth_value_def client_isUpgraded_def getClient_def
      getRawAgent_def client_upgrade_def upgrade_def)

section \<open>The nonce\<close>

text \<open>
  C6, as amended. The nonce of a private request is a thousand times the reading of the
  wall clock (in milliseconds) at the call. So the nonces of a session are strictly
  increasing exactly when the successive clock readings are, and a clock that never goes
  back gives nonces that never go back; requests made within one millisecond carry the
  same nonce. (Readings are taken in the range where the product is exact.)
\<close>

theorem generateNonce_session:
  assumes "\<forall>t \<in> set clock. 0 \<le> t \<and> t * 1000 \<le> 2 ^ 53"
  shows "session_nonces clock = map (\<lambda>t. t * 1000) clock \<and>
    sorted_wrt (<) (session_nonces clock) = sorted_wrt (<) clock \<and>
    (sorted_wrt (\<le>) clock \<longrightarrow> sorted_wrt (\<le>) (session_nonces clock))"
  by (simp add: session_nonces_def generateNonce_def sorted_wrt_map cong: map_cong)

theorem generateNonce_session_witness:
  "session_nonces [1500000000000, 1500000000001] = [1500000000000000, 1500000000001000] \<and>
   sorted_wrt (<) (session_nonces [1500000000000, 1500000000001])"
proof -
  have h: "\<forall>t \<in> set [1500000000000, 1500000000001 :: int]. 0 \<le> t \<and> t * 1000 \<le> 2 ^ 53"
    by simp
  show ?thesis using generateNonce_session [OF h] by simp
qed

text \<open>The claim as first stated fails for two private requests made within the same
  millisecond: the second nonce is not greater than the first.\<close>

theorem generateNonce_same_millisecond_counterexample:
  "\<not> sorted_wrt (<) (session_nonces [1500000000000, 1500000000000])"
  by (simp add: session_nonces_def)

text \<open>The nonce that a balances request carries is the one of the clock reading.\<close>

lemma returnBalances_nonce:
  "sent (returnBalances axios now c) =
     sent (postToPrivateEndpoint axios (rawAgent c)
       (JObj [(''command'', JStr ''returnBalances''), (''nonce'', JNum (now * 1000))])
       (requestConfig c))"
  by (simp add: returnBalances_def on_rawAgent_def Let_def generateNonce_def del: stringify.simps)

section \<open>Public requests\<close>

lemma encode_plain:
  "encode ''command'' = ''command''" "encode ''returnOrderBook'' = ''returnOrderBook''"
  "encode ''currencyPair'' = ''currencyPair''" "encode ''BTC_ETH'' = ''BTC_ETH''"
  by (simp_all add: encode_def encode_char_def unreserved_def)

lemma stringify_order_book:
  "stringify (JObj [(''command'', JStr ''returnOrderBook''), (''currencyPair'', JStr ''BTC_ETH''),
      (''depth'', JUndefined)]) = ''command=returnOrderBook&currencyPair=BTC_ETH''"
  by (simp add: encode_plain)

lemma public_config_agent:
  assumes "''url'' \<notin> set (keys configOverride)"
    and "''method'' \<notin> set (keys configOverride)"
    and "''headers'' \<notin> set (keys configOverride)"
  shows "\<exists>cfg. sent (getPublicEndpoint axios this queryParams configOverride) = [JObj cfg] \<and>
        obj_get cfg ''method'' = JStr ''GET'' \<and>
        obj_get cfg ''url'' = JStr (''/public?'' @ stringify queryParams) \<and>
        obj_get cfg ''headers'' = JObj
          [(''User-Agent'', JStr ''Poloniex API Client (poloniex-exchange-api node package)'')]"
proof -
  let ?config = "spread (spread [] (JObj defaultConfig)) configOverride"
  have notin: "''url'' \<notin> fst ` set (own_props (JObj ?config))"
    "''method'' \<notin> fst ` set (own_props (JObj ?config))"
    "''headers'' \<notin> fst ` set (own_props (JObj ?config))"
    using assms by (simp_all add: keys_config keys_set)
  show ?thesis
    unfolding sent_public
    by (simp add: obj_get_spread_notin [OF notin(1)] obj_get_spread_notin [OF notin(2)]
        obj_get_spread_notin [OF notin(3)] del: stringify.simps)
      (simp add: obj_get_def)
qed

lemma returnOrderBook_example:
  "sent (returnOrderBook axios (getClient None JUndefined)
      (JObj [(''currencyPair'', JStr ''BTC_ETH'')])) =
     [JObj
        [(''baseURL'', JStr ''https://poloniex.com''),
         (''headers'', JObj [(''User-Agent'',
            JStr ''Poloniex API Client (poloniex-exchange-api node package)'')]),
         (''method'', JStr ''GET''), (''timeout'', JNum 5000),
         (''validateStatus'', JFunc ''() => true''),
         (''url'', JStr ''/public?command=returnOrderBook&currencyPair=BTC_ETH''),
         (''rootUrl'', JStr ''https://poloniex.com'')]]"
proof -
  have params: "spread (spread [] (JObj [(''command'', JStr ''returnOrderBook'')]))
        (JObj [(''currencyPair'', JStr ''BTC_ETH''), (''depth'', JUndefined)]) =
      [(''command'', JStr ''returnOrderBook''), (''currencyPair'', JStr ''BTC_ETH''),
       (''depth'', JUndefined)]"
    by (simp add: spread_def)
  show ?thesis
    by (simp add: returnOrderBook_def pick_def obj_get_def on_rawAgent_def getClient_def
        sent_public params stringify_order_book spread_defaultConfig Let_def
        del: stringify.simps)
      (simp add: spread_def defaultConfig_def)
qed

text \<open>
  C7, as amended. \<open>getPublicEndpoint\<close> hands the transport one configuration; when
  the request override names none of \<open>url\<close>, \<open>method\<close> and \<open>headers\<close> (in
  particular when there is none), its method is GET, its URL is \<open>/public?\<close> followed
  by the serialization of the parameters, and its only header is the \<open>User-Agent\<close>
  (no \<open>Key\<close>, no \<open>Sign\<close>). The order-book method with \<open>{currencyPair: "BTC_ETH"}\<close>
  on a client without credentials and without override asks for
  \<open>/public?command=returnOrderBook&currencyPair=BTC_ETH\<close>.
\<close>

theorem getPublicEndpoint_request:
  assumes "''url'' \<notin> set (keys configOverride)"
    and "''method'' \<notin> set (keys configOverride)"
    and "''headers'' \<notin> set (keys configOverride)"
  shows
    "(\<exists>cfg. sent (getPublicEndpoint axios this queryParams configOverride) = [JObj cfg] \<and>
        obj_get cfg ''method'' = JStr ''GET'' \<and>
        obj_get cfg ''url'' = JStr (''/public?'' @ stringify queryParams) \<and>
        obj_get cfg ''headers'' = JObj
          [(''User-Agent'', JStr ''Poloniex API Client (poloniex-exchange-api node package)'')] \<and>
        obj_get (own_props (obj_get cfg ''headers'')) ''Key'' = JUndefined \<and>
        obj_get (own_props (obj_get cfg ''headers'')) ''Sign'' = JUndefined) \<and>
     sent (returnOrderBook axios (getClient None JUndefined)
        (JObj [(''currencyPair'', JStr ''BTC_ETH'')])) =
       [JObj
          [(''baseURL'', JStr ''https://poloniex.com''),
           (''headers'', JObj [(''User-Agent'',
              JStr ''Poloniex API Client (poloniex-exchange-api node package)'')]),
           (''method'', JStr ''GET''), (''timeout'', JNum 5000),
           (''validateStatus'', JFunc ''() => true''),
           (''url'', JStr ''/public?command=returnOrderBook&currencyPair=BTC_ETH''),
           (''rootUrl'', JStr ''https://poloniex.com'')]]"
proof -
  obtain cfg where c: "sent (getPublicEndpoint axios this queryParams configOverride) = [JObj cfg]"
      "obj_get cfg ''method'' = JStr ''GET''"
      "obj_get cfg ''url'' = JStr (''/public?'' @ stringify queryParams)"
      "obj_get cfg ''headers'' = JObj
        [(''User-Agent'', JStr ''Poloniex API Client (poloniex-exchange-api node package)'')]"
    using public_config_agent [OF assms] by blast
  have "obj_get (own_props (obj_get cfg ''headers'')) ''Key'' = JUndefined"
    "obj_get (own_props (obj_get cfg ''headers'')) ''Sign'' = JUndefined"
    unfolding c(4) by (simp_all add: obj_get_def)
  then show ?thesis using c returnOrderBook_example by blast
qed

theorem getPublicEndpoint_request_witness:
  "\<exists>cfg. sent (getPublicEndpoint (\<lambda>cfg. Inr JNull) (getRawAgent None)
        (JObj [(''command'', JStr ''returnTicker'')]) JNull) = [JObj cfg] \<and>
      obj_get cfg ''method'' = JStr ''GET'' \<and>
      obj_get cfg ''url'' = JStr (''/public?'' @ stringify (JObj [(''command'', JStr ''returnTicker'')])) \<and>
      obj_get cfg ''headers'' = JObj
        [(''User-Agent'', JStr ''Poloniex API Client (poloniex-exchange-api node package)'')]"
proof -
  have k: "''url'' \<notin> set (keys JNull)" "''method'' \<notin> set (keys JNull)"
    "''headers'' \<notin> set (keys JNull)"
    by (simp_all add: keys_def)
  show ?thesis
    using getPublicEndpoint_request [OF k, where axios = "\<lambda>cfg. Inr JNull"
        and this = "getRawAgent None"
        and queryParams = "JObj [(''command'', JStr ''returnTicker'')]"]
    by blast
qed

text \<open>The claim as first stated fails where the request override names the method:
  the public request goes out as a POST.\<close>

theorem getPublicEndpoint_override_counterexample:
  "sent (getPublicEndpoint (\<lambda>cfg. Inr JNull) (getRawAgent None)
      (JObj [(''command'', JStr ''returnTicker'')]) (JObj [(''method'', JStr ''POST'')])) =
   [JObj
      [(''baseURL'', JStr ''https://poloniex.com''),
       (''headers'', JObj [(''User-Agent'',
          JStr ''Poloniex API Client (poloniex-exchange-api node package)'')]),
       (''method'', JStr ''POST''), (''timeout'', JNum 5000),
       (''validateStatus'', JFunc ''() => true''),
       (''url'', JStr (''/public?'' @ stringify (JObj [(''command'', JStr ''returnTicker'')]))),
       (''rootUrl'', JStr ''https://poloniex.com'')]]"
  unfolding sent_public
  by (simp add: spread_def defaultConfig_def del: stringify.simps)

section \<open>The credentials and the send operations\<close>

text \<open>
  C9. No send operation changes the credentials: after \<open>getPublicEndpoint\<close> and after
  \<open>postToPrivateEndpoint\<close>, whatever the transport answers, the \<open>auth\<close> field of the
  raw object is what it was; \<open>upgrade\<close> is the operation that sets it.
\<close>

theorem send_operations_keep_auth:
  "auth (receiver (getPublicEndpoint axios this queryParams configOverride)) = auth this \<and>
   auth (receiver (postToPrivateEndpoint axios this data configOverride)) = auth this \<and>
   auth (receiver (getPublicEndpoint_index axios this queryParams)) = auth this \<and>
   auth (receiver (postToPrivateEndpoint_index axios this data)) = auth this \<and>
   auth (upgrade this newAuth) = Some newAuth"
  by (simp add: getPublicEndpoint_def postToPrivateEndpoint_def getPublicEndpoint_index_def
      postToPrivateEndpoint_index_def upgrade_def Let_def split: option.splits)

text \<open>
  C10. The public request does not depend on the credentials: two raw objects, whatever
  their \<open>auth\<close> fields, hand the transport the same configuration for the same query
  parameters (and the same request override), and settle the same way.
\<close>

theorem getPublicEndpoint_ignores_credentials:
  "sent (getPublicEndpoint axios c1 queryParams configOverride) =
     sent (getPublicEndpoint axios c2 queryParams configOverride) \<and>
   outcome (getPublicEndpoint axios c1 queryParams configOverride) =
     outcome (getPublicEndpoint axios c2 queryParams configOverride) \<and>
   sent (getPublicEndpoint_index axios c1 queryParams) =
     sent (getPublicEndpoint_index axios c2 queryParams) \<and>
   outcome (getPublicEndpoint_index axios c1 queryParams) =
     outcome (getPublicEndpoint_index axios c2 queryParams)"
  by (simp add: getPublicEndpoint_def getPublicEndpoint_index_def Let_def)

end
